theory Spec2Isabelle
  imports Complex_Main "HOL-Library.AList" "HOL-Library.Sublist" "HOL-Library.Log_Nat"
begin

section \<open>JavaScript numbers\<close>

text \<open>
  A JavaScript number is an IEEE 754 binary64 value: \<open>NaN\<close>, the two infinities, the
  negative zero, or a finite value \<open>Num x\<close> (\<open>Num 0\<close> is the positive zero). Every
  arithmetic operation computes the exact result and rounds it to the nearest
  representable value, ties to even.
\<close>

datatype jsnum = NaN | PInf | NInf | NegZero | Num real

text \<open>Rounding to the nearest integer, ties to the even one.\<close>

definition rne :: "real \<Rightarrow> int" where
  "rne x =
     (let f = \<lfloor>x\<rfloor>; d = x - of_int f
      in if d < 1 / 2 then f else if 1 / 2 < d then f + 1 else if even f then f else f + 1)"

text \<open>The binary exponent of a positive real: \<open>2 powi ilog2 x \<le> x < 2 powi (ilog2 x + 1)\<close>.\<close>

definition ilog2 :: "real \<Rightarrow> int" where
  "ilog2 x = (if 1 \<le> x then bitlen \<lfloor>x\<rfloor> - 1 else - bitlen (\<lceil>1 / x\<rceil> - 1))"

text \<open>
  The spacing of the binary64 values around \<open>x\<close>: 53 significant bits, and the fixed
  spacing \<open>2 powi - 1074\<close> of the subnormal range below \<open>2 powi - 1022\<close>.
\<close>

definition ulp :: "real \<Rightarrow> real" where
  "ulp x = 2 powi (max (ilog2 \<bar>x\<bar>) (- 1022) - 52)"

text \<open>The nearest multiple of the spacing (the exponent range is not yet bounded above).\<close>

definition rnd :: "real \<Rightarrow> real" where
  "rnd x = (if x = 0 then 0 else sgn x * of_int (rne (\<bar>x\<bar> / ulp x)) * ulp x)"

definition js_inf :: "bool \<Rightarrow> jsnum" where
  "js_inf neg = (if neg then NInf else PInf)"

definition js_zero :: "bool \<Rightarrow> jsnum" where
  "js_zero neg = (if neg then NegZero else Num 0)"

text \<open>
  The result of an operation whose exact value is \<open>x\<close> and whose sign is \<open>neg\<close>: overflow
  gives an infinity, and a result that rounds to zero keeps the sign.
\<close>

definition js_round :: "bool \<Rightarrow> real \<Rightarrow> jsnum" where
  "js_round neg x =
     (let v = rnd x
      in if 2 powi 1024 \<le> \<bar>v\<bar> then js_inf neg
         else if v = 0 then js_zero neg
         else Num v)"

definition js_negative :: "jsnum \<Rightarrow> bool" where
  "js_negative a =
     (case a of NaN \<Rightarrow> False | PInf \<Rightarrow> False | NInf \<Rightarrow> True | NegZero \<Rightarrow> True
      | Num x \<Rightarrow> x < 0)"

definition js_infinite :: "jsnum \<Rightarrow> bool" where
  "js_infinite a = (a = PInf \<or> a = NInf)"

definition js_val :: "jsnum \<Rightarrow> real" where
  "js_val a = (case a of Num x \<Rightarrow> x | _ \<Rightarrow> 0)"

text \<open>\<open>a / b\<close>\<close>

definition js_div :: "jsnum \<Rightarrow> jsnum \<Rightarrow> jsnum" where
  "js_div a b =
     (if a = NaN \<or> b = NaN then NaN
      else (let neg = (js_negative a \<noteq> js_negative b)
            in if js_infinite a then (if js_infinite b then NaN else js_inf neg)
               else if js_infinite b then js_zero neg
               else if js_val b = 0 then (if js_val a = 0 then NaN else js_inf neg)
               else js_round neg (js_val a / js_val b)))"

text \<open>\<open>a * b\<close>\<close>

definition js_mul :: "jsnum \<Rightarrow> jsnum \<Rightarrow> jsnum" where
  "js_mul a b =
     (if a = NaN \<or> b = NaN then NaN
      else (let neg = (js_negative a \<noteq> js_negative b)
            in if js_infinite a then (if \<not> js_infinite b \<and> js_val b = 0 then NaN else js_inf neg)
               else if js_infinite b then (if js_val a = 0 then NaN else js_inf neg)
               else js_round neg (js_val a * js_val b)))"

text \<open>\<open>Math.ceil\<close>: a value in \<open>(-1, 0)\<close> gives the negative zero.\<close>

definition js_ceil :: "jsnum \<Rightarrow> jsnum" where
  "js_ceil a =
     (case a of
        Num x \<Rightarrow> if - 1 < x \<and> x < 0 then NegZero else Num (of_int \<lceil>x\<rceil>)
      | _ \<Rightarrow> a)"

text \<open>The order \<open>Math.max\<close> and \<open>Math.min\<close> compare with: the negative zero is below the positive one.\<close>

definition js_le :: "jsnum \<Rightarrow> jsnum \<Rightarrow> bool" where
  "js_le a b =
     (case a of
        NaN \<Rightarrow> False
      | NInf \<Rightarrow> b \<noteq> NaN
      | PInf \<Rightarrow> b = PInf
      | NegZero \<Rightarrow>
          (case b of NaN \<Rightarrow> False | NInf \<Rightarrow> False | PInf \<Rightarrow> True | NegZero \<Rightarrow> True
           | Num y \<Rightarrow> 0 \<le> y)
      | Num x \<Rightarrow>
          (case b of NaN \<Rightarrow> False | NInf \<Rightarrow> False | PInf \<Rightarrow> True | NegZero \<Rightarrow> x < 0
           | Num y \<Rightarrow> x \<le> y))"

text \<open>\<open>Math.max(a, b)\<close> and \<open>Math.min(a, b)\<close>: \<open>NaN\<close> if an argument is \<open>NaN\<close>.\<close>

definition js_max :: "jsnum \<Rightarrow> jsnum \<Rightarrow> jsnum" where
  "js_max a b = (if a = NaN \<or> b = NaN then NaN else if js_le a b then b else a)"

definition js_min :: "jsnum \<Rightarrow> jsnum \<Rightarrow> jsnum" where
  "js_min a b = (if a = NaN \<or> b = NaN then NaN else if js_le a b then a else b)"

section \<open>Data contract (frontend/src/types/threat-analysis.ts)\<close>

text \<open>
  A threat record (\<open>ThreatData\<close>) is never inspected by the code modelled here: it is
  stored, copied and counted only. The records below are therefore polymorphic in the
  type \<open>'t\<close> of threat records. Optional fields (\<open>field?: T\<close>) are \<open>option\<close>s, lengths
  and counters are \<open>nat\<close>, and the two numbers of the configuration, which come from
  \<open>Number(e.target.value)\<close>, are JavaScript numbers.
\<close>

record WorkflowConfig =
  csv_path :: "string option"
  callback_url :: "string option"
  batch_size :: jsnum
  max_items :: jsnum

record ThreatSummary =
  total_items :: nat
  true_positives :: nat
  false_positives :: nat
  critical :: nat
  high :: nat
  medium :: nat
  low :: nat

datatype exec_status = NotFound | Processing | Completed

record 't ExecutionStatus =
  found :: bool
  executionId :: string
  startTime :: "string option"
  completedTime :: "string option"
  batchesReceived :: "nat option"
  finalSummary :: "ThreatSummary option"
  allResults :: "'t list option"
  totalResultsCount :: "nat option"
  progress :: nat
  status :: exec_status

section \<open>Reconciliation in IntegratedDashboard\<close>

text \<open>
  The component state that the threat-data effect reads and writes:
  \<open>threatData\<close>, \<open>firstBatchReceived\<close>, \<open>forceUpdateCounter\<close> (three \<open>useState\<close> cells,
  initially \<open>[]\<close>, \<open>false\<close>, \<open>0\<close>) and \<open>executionStatus\<close>, the \<open>data\<close> of the status query
  (\<open>undefined\<close> until the first snapshot).
\<close>

record 't dashboard =
  threatData :: "'t list"
  firstBatchReceived :: bool
  forceUpdateCounter :: nat
  executionStatus :: "'t ExecutionStatus option"

definition initialDashboard :: "'t dashboard" where
  "initialDashboard =
     \<lparr>threatData = [], firstBatchReceived = False, forceUpdateCounter = 0,
      executionStatus = None\<rparr>"

text \<open>
  The placeholder that \<open>useTriggerAnalysis\<close> writes into the query cache when a run starts:
  \<open>{found: true, executionId, status: 'processing', progress: 0}\<close>.
\<close>

definition initialData :: "string \<Rightarrow> 't ExecutionStatus" where
  "initialData eid =
     \<lparr>found = True, executionId = eid, startTime = None, completedTime = None,
      batchesReceived = None, finalSummary = None, allResults = None,
      totalResultsCount = None, progress = 0, status = Processing\<rparr>"

text \<open>\<open>executionStatus?.allResults?.length || 0\<close>\<close>

definition resultsCount :: "'t ExecutionStatus \<Rightarrow> nat" where
  "resultsCount s = (case allResults s of None \<Rightarrow> 0 | Some rs \<Rightarrow> length rs)"

text \<open>
  The test that guards the replacement in the effect:
  \<open>executionStatus?.allResults && executionStatus.allResults.length > 0\<close> and then, inside
  the state updater, \<open>newLength !== currentLength\<close>. When it holds the effect bumps
  \<open>forceUpdateCounter\<close>; it is the only change signal the component has.
\<close>

definition threatDataChanged :: "'t ExecutionStatus option \<Rightarrow> 't list \<Rightarrow> bool" where
  "threatDataChanged es prevData =
     (case es of
        None \<Rightarrow> False
      | Some s \<Rightarrow>
          (case allResults s of
             None \<Rightarrow> False
           | Some rs \<Rightarrow> length rs > 0 \<and> length rs \<noteq> length prevData))"

text \<open>
  The effect \<open>useEffect(() => {...}, [dataUpdatedAt, executionStatus?.allResults,
  firstBatchReceived])\<close>: when the test holds, \<open>threatData\<close> becomes a copy of
  \<open>executionStatus.allResults\<close>, \<open>firstBatchReceived\<close> is set and \<open>forceUpdateCounter\<close> is
  incremented; otherwise \<open>prevData\<close> is returned and nothing is written.
\<close>

definition updateThreatData :: "'t dashboard \<Rightarrow> 't dashboard" where
  "updateThreatData st =
     (case executionStatus st of
        None \<Rightarrow> st
      | Some s \<Rightarrow>
          (case allResults s of
             None \<Rightarrow> st
           | Some rs \<Rightarrow>
               if length rs > 0 then
                 (if length rs \<noteq> length (threatData st)
                  then st\<lparr>threatData := rs, firstBatchReceived := True,
                          forceUpdateCounter := forceUpdateCounter st + 1\<rparr>
                  else st)
               else st))"

text \<open>
  One poll: the query publishes the snapshot as its \<open>data\<close> (structural sharing is off, so
  every response replaces the previous one) and the effect runs.
\<close>

definition onSnapshot :: "'t ExecutionStatus \<Rightarrow> 't dashboard \<Rightarrow> 't dashboard" where
  "onSnapshot s st = updateThreatData (st\<lparr>executionStatus := Some s\<rparr>)"

text \<open>The dashboards after each snapshot of a sequence, in order.\<close>

fun onSnapshots :: "'t dashboard \<Rightarrow> 't ExecutionStatus list \<Rightarrow> 't dashboard list" where
  "onSnapshots st [] = []"
| "onSnapshots st (s # ss) = onSnapshot s st # onSnapshots (onSnapshot s st) ss"

text \<open>
  The summary panel is rendered from \<open>isCompleted && executionStatus?.finalSummary\<close>:
  the component keeps no copy of the summary, it reads the latest snapshot.
\<close>

definition shownFinalSummary :: "'t dashboard \<Rightarrow> ThreatSummary option" where
  "shownFinalSummary st =
     (case executionStatus st of
        None \<Rightarrow> None
      | Some s \<Rightarrow> if status s = Completed then finalSummary s else None)"

text \<open>\<open>executionStatus.batchesReceived || 0\<close>\<close>

definition batchesOrZero :: "'t ExecutionStatus \<Rightarrow> nat" where
  "batchesOrZero s = (case batchesReceived s of None \<Rightarrow> 0 | Some b \<Rightarrow> b)"

text \<open>
  \<open>calculateProgress\<close>, with the local constants of the source. An array length is below
  \<open>2 ^ 32\<close> and a batch count is the length of an array of the relay, so both are
  numbers as they stand.
\<close>

definition calculateProgress ::
  "WorkflowConfig \<Rightarrow> 't ExecutionStatus option \<Rightarrow> jsnum" where
  "calculateProgress cfg es =
     (case es of
        None \<Rightarrow> Num 0
      | Some s \<Rightarrow>
          if status s = Completed then Num 100
          else
            (let resultsReceived = Num (real (resultsCount s));
                 expectedTotal = max_items cfg;
                 resultsProgress = js_mul (js_div resultsReceived expectedTotal) (Num 100);
                 expectedBatches = js_ceil (js_div (max_items cfg) (batch_size cfg));
                 batchProgress =
                   js_mul (js_div (Num (real (batchesOrZero s))) expectedBatches) (Num 100)
             in js_min (js_max resultsProgress batchProgress) (Num 99)))"


section \<open>Polling controller (useExecutionStatus)\<close>

text \<open>
  \<open>QueryOptions.refetchInterval\<close> is a number or a function of the data returning a
  number or \<open>false\<close>; the hook's own \<open>refetchInterval\<close> callback returns a number or
  \<open>false\<close> as well.
\<close>

datatype interval = StopPolling | PollEvery real

datatype 't interval_option =
  FixedInterval real
| IntervalFn "'t ExecutionStatus \<Rightarrow> interval"

record 't QueryOptions =
  enabled :: "bool option"
  refetchInterval :: "'t interval_option option"

text \<open>The destructuring defaults \<open>enabled = true\<close>, \<open>refetchInterval = 1000\<close>.\<close>

definition enabledOrDefault :: "'t QueryOptions \<Rightarrow> bool" where
  "enabledOrDefault opts = (case enabled opts of None \<Rightarrow> True | Some b \<Rightarrow> b)"

definition refetchIntervalOrDefault :: "'t QueryOptions \<Rightarrow> 't interval_option" where
  "refetchIntervalOrDefault opts =
     (case refetchInterval opts of None \<Rightarrow> FixedInterval 1000 | Some r \<Rightarrow> r)"

text \<open>\<open>enabled: enabled && !!executionId\<close> (an empty string is falsy).\<close>

definition queryEnabled :: "'t QueryOptions \<Rightarrow> string option \<Rightarrow> bool" where
  "queryEnabled opts eid =
     (enabledOrDefault opts \<and> (case eid of None \<Rightarrow> False | Some e \<Rightarrow> e \<noteq> []))"

text \<open>
  The \<open>refetchInterval\<close> callback handed to \<open>useQuery\<close>, as a function of the options of
  the hook and of \<open>query.state.data\<close>.
\<close>

definition pollInterval :: "'t QueryOptions \<Rightarrow> 't ExecutionStatus option \<Rightarrow> interval" where
  "pollInterval opts data =
     (case data of
        None \<Rightarrow> StopPolling
      | Some d \<Rightarrow>
          if status d = Completed \<or> \<not> found d then StopPolling
          else (case refetchIntervalOrDefault opts of
                  FixedInterval n \<Rightarrow> PollEvery n
                | IntervalFn f \<Rightarrow> f d))"

text \<open>The options the dashboard passes: \<open>{enabled: !!currentExecutionId, refetchInterval: 1000}\<close>.\<close>

definition dashboardOptions :: "string option \<Rightarrow> 't QueryOptions" where
  "dashboardOptions currentExecutionId =
     \<lparr>enabled = Some (case currentExecutionId of None \<Rightarrow> False | Some e \<Rightarrow> e \<noteq> []),
      refetchInterval = Some (FixedInterval 1000)\<rparr>"

section \<open>Status query (getExecutionStatus)\<close>

text \<open>One element of \<open>AllExecutionsResponse.executions\<close>.\<close>

record 't execution_entry =
  execution_id :: string
  start_time :: string
  completed_time :: "string option"
  batches_received :: nat
  final_summary :: "ThreatSummary option"
  all_results :: "'t list option"
  total_results_count :: "nat option"

record 't AllExecutionsResponse =
  total_executions :: nat
  executions :: "'t execution_entry list"
  timestamp :: string





section \<open>Relay (callback server)\<close>

text \<open>
  The body of a \<open>POST /callback\<close> request, with the fields the handler reads. The fields
  carry the prefix \<open>cb_\<close> because several of their names (\<open>execution_id\<close>, \<open>status\<close>,
  \<open>timestamp\<close>, \<open>total_items\<close>) are fields of other records here. \<open>batch_results\<close> is
  tested with \<open>Array.isArray\<close>, so the model distinguishes a falsy value (\<open>Absent\<close>:
  missing or \<open>null\<close>), a truthy value that is no array, and an array.
\<close>

datatype 't results_field = Absent | NotAnArray | ResultList "'t list"

record 't callback_body =
  cb_execution_id :: "string option"
  cb_status :: "string option"
  cb_batch_number :: "nat option"
  cb_total_batches :: "nat option"
  cb_progress_percent :: "nat option"
  cb_workflow_id :: "string option"
  cb_timestamp :: "string option"
  cb_summary :: "ThreatSummary option"
  cb_batch_results :: "'t results_field"
  cb_total_items :: "nat option"

text \<open>An element of \<open>execution.batches\<close> (\<open>progress\<close>, \<open>summary\<close>, \<open>timestamp\<close> prefixed).\<close>

record 't batch =
  batchNumber :: "nat option"
  totalBatches :: "nat option"
  batch_progress :: nat
  batch_summary :: "ThreatSummary option"
  batch_results :: "'t results_field"
  batch_timestamp :: "string option"

text \<open>
  A value of the \<open>executions\<close> map. \<open>allResults\<close>, \<open>completedTime\<close> and \<open>finalSummary\<close> do
  not exist until the handler assigns them; they carry the prefix \<open>ex_\<close> to keep them apart
  from the fields of \<open>ExecutionStatus\<close>.
\<close>

record 't execution =
  ex_startTime :: string
  batches :: "'t batch list"
  totalItems :: nat
  ex_allResults :: "'t list option"
  ex_completedTime :: "string option"
  ex_finalSummary :: "ThreatSummary option"

text \<open>
  \<open>const executions = new Map()\<close>: a JavaScript \<open>Map\<close> iterates in insertion order, and
  \<open>/status\<close> lists the entries in that order, so the map is an association list that
  grows at its end.
\<close>

type_synonym 't relay = "(string \<times> 't execution) list"

text \<open>\<open>x || d\<close> on an optional string: the default replaces a missing or empty value.\<close>

definition orDefault :: "string option \<Rightarrow> string \<Rightarrow> string" where
  "orDefault v d = (case v of None \<Rightarrow> d | Some x \<Rightarrow> if x = [] then d else x)"

definition callbackId :: "'t callback_body \<Rightarrow> string" where
  "callbackId b = orDefault (cb_execution_id b) ''unknown''"

definition callbackStatus :: "'t callback_body \<Rightarrow> string" where
  "callbackStatus b = orDefault (cb_status b) ''unknown''"

definition newExecution :: "string \<Rightarrow> 't execution" where
  "newExecution now =
     \<lparr>ex_startTime = now, batches = [], totalItems = 0, ex_allResults = None,
      ex_completedTime = None, ex_finalSummary = None\<rparr>"

text \<open>\<open>if (!executions.has(executionId)) executions.set(executionId, {...})\<close>\<close>

definition register :: "string \<Rightarrow> string \<Rightarrow> 't relay \<Rightarrow> 't relay" where
  "register now eid st =
     (if map_of st eid = None then st @ [(eid, newExecution now)] else st)"

text \<open>
  The \<open>batch_completed\<close> branch: push the batch, create \<open>allResults\<close> if it is missing,
  and push the elements of \<open>batch_results\<close> when it is an array.
\<close>

definition storeBatch :: "'t callback_body \<Rightarrow> 't execution \<Rightarrow> 't execution" where
  "storeBatch b e =
     e\<lparr>batches :=
         batches e @
           [\<lparr>batchNumber = cb_batch_number b,
             totalBatches = cb_total_batches b,
             batch_progress = (case cb_progress_percent b of None \<Rightarrow> 0 | Some p \<Rightarrow> p),
             batch_summary = cb_summary b,
             batch_results =
               (case cb_batch_results b of Absent \<Rightarrow> ResultList [] | r \<Rightarrow> r),
             batch_timestamp = cb_timestamp b\<rparr>],
       ex_allResults :=
         (let cur = (case ex_allResults e of None \<Rightarrow> [] | Some rs \<Rightarrow> rs)
          in case cb_batch_results b of
               ResultList rs \<Rightarrow> Some (cur @ rs)
             | _ \<Rightarrow> Some cur)\<rparr>"

text \<open>The \<open>completed\<close> branch.\<close>

definition storeCompletion :: "string \<Rightarrow> 't callback_body \<Rightarrow> 't execution \<Rightarrow> 't execution" where
  "storeCompletion now b e = e\<lparr>ex_completedTime := Some now, ex_finalSummary := cb_summary b\<rparr>"

record callback_ack =
  http_code :: nat
  ack_status :: string
  ack_message :: string
  ack_execution_id :: string
  ack_timestamp :: string

text \<open>
  \<open>app.post('/callback', ...)\<close>. The handler reads the clock (\<open>new Date().toISOString()\<close>)
  for the start time, the completion time and the acknowledgement; it runs to completion
  without yielding, and \<open>now\<close> stands for these readings. Logging is left out.
\<close>

definition post_callback ::
  "string \<Rightarrow> 't callback_body \<Rightarrow> 't relay \<Rightarrow> 't relay \<times> callback_ack" where
  "post_callback now b st =
     (let eid = callbackId b;
          stat = callbackStatus b;
          st1 = register now eid st;
          st2 = (if stat = ''batch_completed'' then AList.map_entry eid (storeBatch b) st1
                 else if stat = ''completed''
                 then AList.map_entry eid (storeCompletion now b) st1
                 else st1)
      in (st2,
          \<lparr>http_code = 200, ack_status = ''received'',
           ack_message = ''Callback processed successfully'',
           ack_execution_id = eid, ack_timestamp = now\<rparr>))"





text \<open>\<open>app.get('/status', ...)\<close>\<close>

definition statusEntry :: "string \<times> 't execution \<Rightarrow> 't execution_entry" where
  "statusEntry p =
     (case p of (eid, d) \<Rightarrow>
        \<lparr>execution_id = eid,
         start_time = ex_startTime d,
         completed_time = ex_completedTime d,
         batches_received = length (batches d),
         final_summary = ex_finalSummary d,
         all_results = Some (case ex_allResults d of None \<Rightarrow> [] | Some rs \<Rightarrow> rs),
         total_results_count =
           Some (length (case ex_allResults d of None \<Rightarrow> [] | Some rs \<Rightarrow> rs))\<rparr>)"

definition executionList :: "'t relay \<Rightarrow> 't execution_entry list" where
  "executionList st = map statusEntry st"

definition get_status :: "string \<Rightarrow> 't relay \<Rightarrow> nat \<times> 't AllExecutionsResponse" where
  "get_status now st =
     (200, \<lparr>total_executions = length st, executions = executionList st, timestamp = now\<rparr>)"

text \<open>The relay after a sequence of callbacks, each with the clock reading of its arrival.\<close>

fun receive_all :: "'t relay \<Rightarrow> (string \<times> 't callback_body) list \<Rightarrow> 't relay" where
  "receive_all st [] = st"
| "receive_all st (ev # evs) = receive_all (fst (post_callback (fst ev) (snd ev) st)) evs"

text \<open>
  What a status response reports for one execution id: the entry a client finds with
  \<open>executions.find(e => e.execution_id === id)\<close>, and its \<open>all_results\<close> and
  \<open>batches_received\<close> (empty and zero while the id has no entry).
\<close>

definition reportedEntry :: "'t relay \<Rightarrow> string \<Rightarrow> 't execution_entry option" where
  "reportedEntry st eid = find (\<lambda>e. execution_id e = eid) (executionList st)"

definition reportedResults :: "'t relay \<Rightarrow> string \<Rightarrow> 't list" where
  "reportedResults st eid =
     (case reportedEntry st eid of
        None \<Rightarrow> []
      | Some e \<Rightarrow> (case all_results e of None \<Rightarrow> [] | Some rs \<Rightarrow> rs))"

definition reportedBatches :: "'t relay \<Rightarrow> string \<Rightarrow> nat" where
  "reportedBatches st eid =
     (case reportedEntry st eid of None \<Rightarrow> 0 | Some e \<Rightarrow> batches_received e)"

text \<open>
  A \<open>batch_completed\<close> event for an execution id, and the records it carries (none when
  \<open>batch_results\<close> is missing or no array).
\<close>

definition isBatchFor :: "string \<Rightarrow> 't callback_body \<Rightarrow> bool" where
  "isBatchFor eid b = (callbackStatus b = ''batch_completed'' \<and> callbackId b = eid)"

definition batchItems :: "'t callback_body \<Rightarrow> 't list" where
  "batchItems b = (case cb_batch_results b of ResultList rs \<Rightarrow> rs | _ \<Rightarrow> [])"

section \<open>Properties of the reconciliation\<close>

lemma threatData_onSnapshot:
  "threatData (onSnapshot s st) =
     (case allResults s of
        None \<Rightarrow> threatData st
      | Some rs \<Rightarrow> if rs \<noteq> [] \<and> length rs \<noteq> length (threatData st) then rs
                   else threatData st)"
  by (simp add: onSnapshot_def updateThreatData_def split: option.splits)

lemma executionStatus_onSnapshot:
  "executionStatus (onSnapshot s st) = Some s"
  by (simp add: onSnapshot_def updateThreatData_def split: option.splits)

lemma onSnapshot_cases:
  "onSnapshot s st =
     (if threatDataChanged (Some s) (threatData st)
      then st\<lparr>threatData := (case allResults s of None \<Rightarrow> [] | Some rs \<Rightarrow> rs),
              firstBatchReceived := True,
              forceUpdateCounter := forceUpdateCounter st + 1,
              executionStatus := Some s\<rparr>
      else st\<lparr>executionStatus := Some s\<rparr>)"
  by (simp add: onSnapshot_def updateThreatData_def threatDataChanged_def split: option.splits)

subsection \<open>Shorter snapshots\<close>

text \<open>
  The effect compares lengths with \<open>!==\<close> only. A stored collection of two records and a
  snapshot carrying one record: the snapshot is strictly shorter, and the stored
  collection is replaced by it.
\<close>

theorem shorter_snapshot_counterexample:
  "resultsCount ((initialData ''A'')\<lparr>allResults := Some [3::nat]\<rparr>)
     < length (threatData (initialDashboard\<lparr>threatData := [1, 2]\<rparr>))
   \<and> threatData (onSnapshot ((initialData ''A'')\<lparr>allResults := Some [3::nat]\<rparr>)
         (initialDashboard\<lparr>threatData := [1, 2]\<rparr>)) = [3]
   \<and> threatData (onSnapshot ((initialData ''A'')\<lparr>allResults := Some [3::nat]\<rparr>)
         (initialDashboard\<lparr>threatData := [1, 2]\<rparr>))
       \<noteq> threatData (initialDashboard\<lparr>threatData := [1, 2]\<rparr>)"
  by (simp add: threatData_onSnapshot resultsCount_def initialData_def initialDashboard_def)

text \<open>
  \<^bold>\<open>C1\<close>, as amended. For every stored collection and every incoming snapshot whose
  \<open>all_results\<close> list is strictly shorter than the stored collection, the merge keeps the
  stored collection when the snapshot's list is absent or empty, and otherwise replaces
  the stored collection by the shorter list: a non-empty shorter snapshot shrinks the
  visible collection.
\<close>

theorem shorter_snapshot_merge:
  assumes "resultsCount s < length (threatData st)"
  shows "threatData (onSnapshot s st) =
     (case allResults s of
        None \<Rightarrow> threatData st
      | Some rs \<Rightarrow> if rs = [] then threatData st else rs)"
  using assms by (auto simp: threatData_onSnapshot resultsCount_def split: option.splits)

theorem shorter_snapshot_merge_witness:
  "resultsCount ((initialData ''A'')\<lparr>allResults := Some [3::nat]\<rparr>)
     < length (threatData (initialDashboard\<lparr>threatData := [1, 2]\<rparr>))
   \<and> threatData (onSnapshot ((initialData ''A'')\<lparr>allResults := Some [3::nat]\<rparr>)
         (initialDashboard\<lparr>threatData := [1, 2]\<rparr>)) = [3]"
proof -
  have h: "resultsCount ((initialData ''A'')\<lparr>allResults := Some [3::nat]\<rparr>)
     < length (threatData (initialDashboard\<lparr>threatData := [1, 2]\<rparr>))"
    by (simp add: resultsCount_def initialData_def initialDashboard_def)
  from shorter_snapshot_merge [OF h] h show ?thesis
    by (simp add: initialData_def)
qed

subsection \<open>The merge rule\<close>

text \<open>
  The effect is guarded by \<open>allResults.length > 0\<close>. A stored collection of one record and
  a snapshot with an empty list: the lengths differ, and the stored collection is not
  replaced by the empty list.
\<close>

theorem empty_snapshot_counterexample:
  "length ([] :: nat list) \<noteq> length (threatData (initialDashboard\<lparr>threatData := [1::nat]\<rparr>))
   \<and> threatData (onSnapshot ((initialData ''A'')\<lparr>allResults := Some []\<rparr>)
         (initialDashboard\<lparr>threatData := [1::nat]\<rparr>)) \<noteq> []"
  by (simp add: threatData_onSnapshot initialData_def initialDashboard_def)

text \<open>
  \<^bold>\<open>C2\<close>, as amended. For every stored collection and every incoming snapshot whose
  \<open>all_results\<close> list is not empty: if its length differs from the length of the stored
  collection, the stored collection is replaced wholesale by the snapshot's list; if the
  lengths are equal, the stored collection is left unchanged. A snapshot whose
  \<open>all_results\<close> list is empty or absent leaves the stored collection unchanged whatever
  its length.
\<close>

theorem length_based_merge:
  "(allResults s = Some rs \<and> rs \<noteq> [] \<longrightarrow>
      threatData (onSnapshot s st) =
        (if length rs \<noteq> length (threatData st) then rs else threatData st))
   \<and> (allResults s = None \<or> allResults s = Some [] \<longrightarrow>
      threatData (onSnapshot s st) = threatData st)"
  by (auto simp: threatData_onSnapshot)

theorem length_based_merge_witness:
  "threatData (onSnapshot ((initialData ''A'')\<lparr>allResults := Some [7::nat, 8]\<rparr>)
      (initialDashboard\<lparr>threatData := [1]\<rparr>)) = [7, 8]
   \<and> threatData (onSnapshot ((initialData ''A'')\<lparr>allResults := Some [7::nat, 8]\<rparr>)
      (initialDashboard\<lparr>threatData := [1, 2]\<rparr>)) = [1, 2]
   \<and> threatData (onSnapshot ((initialData ''A'')\<lparr>allResults := Some []\<rparr>)
      (initialDashboard\<lparr>threatData := [1::nat, 2]\<rparr>)) = [1, 2]"
  using
    length_based_merge [where s = "(initialData ''A'')\<lparr>allResults := Some [7::nat, 8]\<rparr>"
      and rs = "[7, 8]" and st = "initialDashboard\<lparr>threatData := [1]\<rparr>"]
    length_based_merge [where s = "(initialData ''A'')\<lparr>allResults := Some [7::nat, 8]\<rparr>"
      and rs = "[7, 8]" and st = "initialDashboard\<lparr>threatData := [1, 2]\<rparr>"]
    length_based_merge [where s = "(initialData ''A'')\<lparr>allResults := Some ([]::nat list)\<rparr>"
      and rs = "[]" and st = "initialDashboard\<lparr>threatData := [1, 2]\<rparr>"]
  by (simp add: initialData_def initialDashboard_def)

subsection \<open>Progress\<close>














lemma ulp_pos: "0 < ulp x"
  by (simp add: ulp_def)






















lemma rne_error: "\<bar>of_int (rne x) - x\<bar> \<le> 1 / 2"
proof -
  define d where "d = x - of_int \<lfloor>x\<rfloor>"
  have d: "0 \<le> d" "d < 1" unfolding d_def by linarith+
  consider "d < 1 / 2" | "1 / 2 < d" | "d = 1 / 2" by linarith
  then show ?thesis
  proof cases
    case 1
    then have "rne x = \<lfloor>x\<rfloor>" by (simp add: rne_def Let_def d_def)
    then have "of_int (rne x) - x = - d" by (simp add: d_def)
    then show ?thesis using d 1 by simp
  next
    case 2
    then have "rne x = \<lfloor>x\<rfloor> + 1" by (simp add: rne_def Let_def d_def)
    then have "of_int (rne x) - x = 1 - d" by (simp add: d_def)
    then show ?thesis using d 2 by simp
  next
    case 3
    then have "rne x = \<lfloor>x\<rfloor> \<or> rne x = \<lfloor>x\<rfloor> + 1" by (simp add: rne_def Let_def d_def)
    then have "of_int (rne x) - x = - d \<or> of_int (rne x) - x = 1 - d" by (auto simp: d_def)
    then show ?thesis using 3 by auto
  qed
qed

lemma rnd_error: "\<bar>rnd x - x\<bar> \<le> ulp x / 2"
proof (cases "x = 0")
  case True
  then show ?thesis using ulp_pos [of 0] by (simp add: rnd_def)
next
  case False
  let ?z = "\<bar>x\<bar> / ulp x"
  have u: "0 < ulp x" by (rule ulp_pos)
  have "rnd x - x = sgn x * ((of_int (rne ?z) - ?z) * ulp x)"
    using False u by (simp add: rnd_def algebra_simps sgn_if abs_if)
  then have "\<bar>rnd x - x\<bar> = \<bar>of_int (rne ?z) - ?z\<bar> * ulp x"
    using False u by (simp add: abs_mult abs_sgn_eq)
  also have "\<dots> \<le> 1 / 2 * ulp x"
    using rne_error [of ?z] u by (intro mult_right_mono) simp_all
  finally show ?thesis by simp
qed





text \<open>
  Outside these hypotheses the arithmetic leaves the finite numbers. An emptied
  \<open>batch_size\<close> field is \<open>0\<close>: the expected number of batches is \<open>Infinity\<close> and the batch
  estimate is \<open>0\<close>. An emptied \<open>max_items\<close> field makes both estimates \<open>Infinity\<close>, clamped
  to \<open>99\<close>, or \<open>NaN\<close> when nothing has been received. One result of three is
  \<open>33.33333333333333\<close>, the binary64 value below \<open>100 / 3\<close>.
\<close>

lemma rnd_0: "rnd 0 = 0"
  by (simp add: rnd_def)

lemmas js_defs =
  js_div_def js_mul_def js_ceil_def js_max_def js_min_def js_le_def js_round_def
  js_inf_def js_zero_def js_negative_def js_infinite_def js_val_def

lemma calculateProgress_zero_batch_size:
  "calculateProgress \<lparr>csv_path = None, callback_url = None, batch_size = Num 0, max_items = Num 200\<rparr>
     (Some ((initialData ''A'')\<lparr>batchesReceived := Some 2,
                                 allResults := Some (replicate 100 (0::nat))\<rparr>)) = Num 50"
proof -
  have q: "rnd (1 / 2) = 1 / 2" "rnd 50 = 50"
    by code_simp+
  show ?thesis
    by (simp add: calculateProgress_def Let_def js_defs resultsCount_def batchesOrZero_def
        initialData_def q rnd_0)
qed

lemma calculateProgress_zero_max_items:
  "calculateProgress \<lparr>csv_path = None, callback_url = None, batch_size = Num 50, max_items = Num 0\<rparr>
     (Some ((initialData ''A'')\<lparr>batchesReceived := Some 2,
                                 allResults := Some (replicate 100 (0::nat))\<rparr>)) = Num 99"
  by (simp add: calculateProgress_def Let_def js_defs resultsCount_def batchesOrZero_def
      initialData_def rnd_0)

lemma calculateProgress_nothing_of_nothing:
  "calculateProgress \<lparr>csv_path = None, callback_url = None, batch_size = Num 50, max_items = Num 0\<rparr>
     (Some (initialData ''A'' :: nat ExecutionStatus)) = NaN"
  by (simp add: calculateProgress_def Let_def js_defs resultsCount_def batchesOrZero_def
      initialData_def rnd_0)

lemma calculateProgress_one_third:
  "calculateProgress \<lparr>csv_path = None, callback_url = None, batch_size = Num 1, max_items = Num 3\<rparr>
     (Some ((initialData ''A'')\<lparr>allResults := Some [0::nat]\<rparr>))
   = Num (2345624805922133 / 70368744177664)"
proof -
  have q: "rnd 3 = 3" "rnd (1 / 3) = 6004799503160661 / 18014398509481984"
    "rnd (150119987579016525 / 4503599627370496) = 2345624805922133 / 70368744177664"
    by code_simp+
  show ?thesis
    by (simp add: calculateProgress_def Let_def js_defs resultsCount_def batchesOrZero_def
        initialData_def q rnd_0)
qed

subsection \<open>Completion\<close>

text \<open>
  The effect never reads \<open>status\<close>. After a completed snapshot with one record, a further
  snapshot with two records (the relay keeps appending batches that arrive after the
  completion event, and the query refetches on window focus) replaces the stored
  collection.
\<close>

theorem completed_not_frozen_counterexample:
  "status ((initialData ''A'')\<lparr>status := Completed, allResults := Some [1::nat]\<rparr>) = Completed
   \<and> threatData
        (onSnapshot ((initialData ''A'')\<lparr>status := Completed, allResults := Some [1, 2]\<rparr>)
          (onSnapshot ((initialData ''A'')\<lparr>status := Completed, allResults := Some [1::nat]\<rparr>)
             initialDashboard))
       \<noteq> threatData
          (onSnapshot ((initialData ''A'')\<lparr>status := Completed, allResults := Some [1::nat]\<rparr>)
             initialDashboard)"
  by (simp add: threatData_onSnapshot initialData_def initialDashboard_def)

text \<open>
  \<^bold>\<open>C4\<close>, as amended. Once a snapshot with status \<open>completed\<close> has been merged, the
  polling controller schedules no further query for it, and the summary shown is the
  \<open>final_summary\<close> of that snapshot. The merge itself does not freeze: a subsequently
  merged snapshot leaves the stored collection unchanged exactly when its \<open>all_results\<close>
  list is absent, empty or as long as the stored collection, and the summary shown
  afterwards is the \<open>final_summary\<close> the later snapshot carries (none unless that snapshot
  is \<open>completed\<close>).
\<close>

theorem after_completed_merge:
  assumes "status c = Completed"
  shows "pollInterval opts (Some c) = StopPolling
     \<and> shownFinalSummary (onSnapshot c st) = finalSummary c
     \<and> (threatData (onSnapshot s (onSnapshot c st)) = threatData (onSnapshot c st)
          \<longleftrightarrow> resultsCount s = 0 \<or> resultsCount s = length (threatData (onSnapshot c st)))
     \<and> shownFinalSummary (onSnapshot s (onSnapshot c st))
          = (if status s = Completed then finalSummary s else None)"
proof (intro conjI)
  show "pollInterval opts (Some c) = StopPolling"
    using assms by (simp add: pollInterval_def)
  show "shownFinalSummary (onSnapshot c st) = finalSummary c"
    using assms by (simp add: shownFinalSummary_def executionStatus_onSnapshot)
  show "threatData (onSnapshot s (onSnapshot c st)) = threatData (onSnapshot c st)
          \<longleftrightarrow> resultsCount s = 0 \<or> resultsCount s = length (threatData (onSnapshot c st))"
    by (auto simp: threatData_onSnapshot [of s] resultsCount_def split: option.splits)
  show "shownFinalSummary (onSnapshot s (onSnapshot c st))
          = (if status s = Completed then finalSummary s else None)"
    by (simp add: shownFinalSummary_def executionStatus_onSnapshot)
qed

theorem after_completed_merge_witness:
  "pollInterval (dashboardOptions (Some ''A''))
      (Some ((initialData ''A'')\<lparr>status := Completed, allResults := Some [1::nat]\<rparr>))
     = StopPolling
   \<and> threatData
        (onSnapshot ((initialData ''A'')\<lparr>status := Completed, allResults := Some [5]\<rparr>)
          (onSnapshot ((initialData ''A'')\<lparr>status := Completed, allResults := Some [1::nat]\<rparr>)
             initialDashboard)) = [1]"
proof -
  let ?c = "(initialData ''A'')\<lparr>status := Completed, allResults := Some [1::nat]\<rparr>"
  let ?s = "(initialData ''A'')\<lparr>status := Completed, allResults := Some [5::nat]\<rparr>"
  have h: "status ?c = Completed" by (simp add: initialData_def)
  have c: "threatData (onSnapshot ?c initialDashboard) = [1]"
    by (simp add: threatData_onSnapshot initialData_def initialDashboard_def)
  from after_completed_merge [OF h, where opts = "dashboardOptions (Some ''A'')" and s = ?s
      and st = initialDashboard] c
  show ?thesis by (simp add: resultsCount_def initialData_def)
qed

subsection \<open>Polling\<close>

text \<open>
  \<^bold>\<open>C5\<close>. When the options carry a fixed interval \<open>n\<close>, or no interval at all, in which
  case \<open>n\<close> is the default of \<open>1000\<close> ms, the interval decision of the polling controller
  is to stop if and only if there is no data yet, the status is \<open>completed\<close>, or \<open>found\<close> is
  false; in every other case it is the configured interval \<open>n\<close>. A snapshot with
  \<open>found = false\<close> stops the polling whatever the options are.
\<close>

theorem pollInterval_decision:
  "(refetchInterval opts = Some (FixedInterval n) \<or> refetchInterval opts = None \<and> n = 1000 \<longrightarrow>
      (pollInterval opts data = StopPolling \<longleftrightarrow>
         (case data of None \<Rightarrow> True | Some d \<Rightarrow> status d = Completed \<or> \<not> found d))
      \<and> (pollInterval opts data \<noteq> StopPolling \<longrightarrow> pollInterval opts data = PollEvery n))
   \<and> (\<not> found d \<longrightarrow> pollInterval opts (Some d) = StopPolling)"
  by (auto simp: pollInterval_def refetchIntervalOrDefault_def split: option.splits)

theorem pollInterval_decision_witness:
  "pollInterval \<lparr>enabled = None, refetchInterval = Some (FixedInterval 250)\<rparr>
      (Some (initialData ''A'' :: nat ExecutionStatus)) = PollEvery 250
   \<and> pollInterval \<lparr>enabled = None, refetchInterval = None\<rparr>
      (Some (initialData ''A'' :: nat ExecutionStatus)) = PollEvery 1000
   \<and> pollInterval (dashboardOptions (Some ''A''))
      (Some (initialData ''A'' :: nat ExecutionStatus)) = PollEvery 1000
   \<and> pollInterval (dashboardOptions (Some ''A''))
       (Some ((initialData ''A'' :: nat ExecutionStatus)\<lparr>found := False, status := NotFound\<rparr>))
     = StopPolling"
proof -
  let ?d = "initialData ''A'' :: nat ExecutionStatus"
  let ?nf = "?d\<lparr>found := False, status := NotFound\<rparr>"
  let ?o1 = "\<lparr>enabled = None, refetchInterval = Some (FixedInterval 250)\<rparr> :: nat QueryOptions"
  let ?o2 = "\<lparr>enabled = None, refetchInterval = None\<rparr> :: nat QueryOptions"
  let ?o3 = "dashboardOptions (Some ''A'') :: nat QueryOptions"
  have 1: "pollInterval ?o1 (Some ?d) = PollEvery 250"
    using pollInterval_decision [of ?o1 250 "Some ?d" ?nf] by (simp add: initialData_def)
  have 2: "pollInterval ?o2 (Some ?d) = PollEvery 1000"
    using pollInterval_decision [of ?o2 1000 "Some ?d" ?nf] by (simp add: initialData_def)
  have 3: "pollInterval ?o3 (Some ?d) = PollEvery 1000"
    using pollInterval_decision [of ?o3 1000 "Some ?d" ?nf]
    by (simp add: initialData_def dashboardOptions_def)
  have 4: "pollInterval ?o3 (Some ?nf) = StopPolling"
    using pollInterval_decision [of ?o3 1000 "Some ?d" ?nf] by simp
  from 1 2 3 4 show ?thesis by (intro conjI)
qed

subsection \<open>Monotone sequences of snapshots\<close>

lemma onSnapshots_lengths:
  "sorted (length (threatData st) # map resultsCount ss) \<Longrightarrow>
   map (\<lambda>d. length (threatData d)) (onSnapshots st ss) = map resultsCount ss"
proof (induction ss arbitrary: st)
  case Nil
  then show ?case by simp
next
  case (Cons s ss)
  have len: "length (threatData (onSnapshot s st)) = resultsCount s"
    using Cons.prems by (auto simp: threatData_onSnapshot resultsCount_def split: option.splits)
  have "sorted (length (threatData (onSnapshot s st)) # map resultsCount ss)"
    using Cons.prems len by simp
  from Cons.IH [OF this] len show ?case by simp
qed

text \<open>
  \<^bold>\<open>C6\<close>. For any sequence of snapshots of a run whose \<open>all_results\<close> lengths are
  non-decreasing, merged one after the other into a collection that is empty when the run
  starts (as \<open>useState\<close> and \<open>handleTrigger\<close> leave it), the length of the stored collection
  after each merge equals the \<open>all_results\<close> length of the snapshot just merged, and these
  lengths are non-decreasing. The effect does not read the execution id.
\<close>

theorem monotone_snapshots_track_length:
  assumes "threatData st = []" and "sorted (map resultsCount ss)"
  shows "map (\<lambda>d. length (threatData d)) (onSnapshots st ss) = map resultsCount ss
     \<and> sorted (map (\<lambda>d. length (threatData d)) (onSnapshots st ss))"
proof -
  have "sorted (length (threatData st) # map resultsCount ss)"
    using assms by simp
  then have "map (\<lambda>d. length (threatData d)) (onSnapshots st ss) = map resultsCount ss"
    by (rule onSnapshots_lengths)
  with assms(2) show ?thesis by simp
qed

theorem monotone_snapshots_track_length_witness:
  "map (\<lambda>d. length (threatData d))
     (onSnapshots initialDashboard
        [initialData ''A'',
         (initialData ''A'')\<lparr>allResults := Some []\<rparr>,
         (initialData ''A'')\<lparr>allResults := Some [1::nat, 2]\<rparr>,
         (initialData ''A'')\<lparr>allResults := Some [1, 2]\<rparr>,
         (initialData ''A'')\<lparr>allResults := Some [1, 2, 3], status := Completed\<rparr>])
   = [0, 0, 2, 2, 3]"
proof -
  let ?ss = "[initialData ''A'',
         (initialData ''A'')\<lparr>allResults := Some []\<rparr>,
         (initialData ''A'')\<lparr>allResults := Some [1::nat, 2]\<rparr>,
         (initialData ''A'')\<lparr>allResults := Some [1, 2]\<rparr>,
         (initialData ''A'')\<lparr>allResults := Some [1, 2, 3], status := Completed\<rparr>]"
  have a: "threatData (initialDashboard :: nat dashboard) = []"
    by (simp add: initialDashboard_def)
  have b: "sorted (map resultsCount ?ss)"
    by (simp add: resultsCount_def initialData_def)
  from monotone_snapshots_track_length [OF a b] show ?thesis
    by (simp add: resultsCount_def initialData_def)
qed

subsection \<open>Repeated snapshots\<close>

text \<open>
  \<^bold>\<open>C7\<close>. The merge is idempotent: after a snapshot has been merged, merging the
  identical snapshot again does not pass the change test (nothing is written, the update
  counter is not bumped) and leaves the whole component state as it was after the first
  merge.
\<close>

theorem repeated_snapshot_idempotent:
  "\<not> threatDataChanged (Some s) (threatData (onSnapshot s st))
   \<and> onSnapshot s (onSnapshot s st) = onSnapshot s st"
  by (auto simp: onSnapshot_cases threatDataChanged_def split: option.splits)

theorem repeated_snapshot_idempotent_witness:
  "onSnapshot ((initialData ''A'')\<lparr>allResults := Some [7::nat, 8]\<rparr>)
     (onSnapshot ((initialData ''A'')\<lparr>allResults := Some [7::nat, 8]\<rparr>) initialDashboard)
   = \<lparr>threatData = [7, 8], firstBatchReceived = True, forceUpdateCounter = 1,
      executionStatus = Some ((initialData ''A'')\<lparr>allResults := Some [7::nat, 8]\<rparr>)\<rparr>"
  using repeated_snapshot_idempotent
      [where s = "(initialData ''A'')\<lparr>allResults := Some [7::nat, 8]\<rparr>"
         and st = initialDashboard]
  by (simp add: onSnapshot_cases threatDataChanged_def initialData_def initialDashboard_def)

section \<open>Properties of the status query\<close>



section \<open>Properties of the relay\<close>

lemma reportedEntry_map_of:
  "reportedEntry st eid = map_option (\<lambda>d. statusEntry (eid, d)) (map_of st eid)"
  unfolding reportedEntry_def executionList_def
  by (induction st) (auto simp: statusEntry_def)

lemma reportedResults_map_of:
  "reportedResults st eid =
     (case map_of st eid of
        None \<Rightarrow> []
      | Some d \<Rightarrow> (case ex_allResults d of None \<Rightarrow> [] | Some rs \<Rightarrow> rs))"
  by (simp add: reportedResults_def reportedEntry_map_of statusEntry_def split: option.splits)

lemma reportedBatches_map_of:
  "reportedBatches st eid =
     (case map_of st eid of None \<Rightarrow> 0 | Some d \<Rightarrow> length (batches d))"
  by (simp add: reportedBatches_def reportedEntry_map_of statusEntry_def split: option.splits)

lemma map_of_register:
  "map_of (register now k st) i =
     (if i = k \<and> map_of st k = None then Some (newExecution now) else map_of st i)"
  by (auto simp: register_def map_add_def split: option.splits)

lemma map_of_post_callback:
  "map_of (fst (post_callback now b st)) i =
     (if i = callbackId b
      then (let d = (case map_of st i of None \<Rightarrow> newExecution now | Some d \<Rightarrow> d)
            in Some (if callbackStatus b = ''batch_completed'' then storeBatch b d
                     else if callbackStatus b = ''completed'' then storeCompletion now b d
                     else d))
      else map_of st i)"
  by (auto simp: post_callback_def Let_def map_of_map_entry map_of_register
      split: option.splits)

lemma reportedResults_post_callback:
  "reportedResults (fst (post_callback now b st)) eid =
     reportedResults st eid @ (if isBatchFor eid b then batchItems b else [])"
  by (auto simp: reportedResults_map_of map_of_post_callback isBatchFor_def
      batchItems_def storeBatch_def storeCompletion_def newExecution_def Let_def
      split: option.splits results_field.splits)

lemma reportedBatches_post_callback:
  "reportedBatches (fst (post_callback now b st)) eid =
     reportedBatches st eid + (if isBatchFor eid b then 1 else 0)"
  by (auto simp: reportedBatches_map_of map_of_post_callback isBatchFor_def
      storeBatch_def storeCompletion_def newExecution_def Let_def
      split: option.splits)

lemma reportedResults_receive_all:
  "reportedResults (receive_all st evs) eid =
     reportedResults st eid @
       concat (map (\<lambda>ev. batchItems (snd ev)) (filter (\<lambda>ev. isBatchFor eid (snd ev)) evs))"
  by (induction evs arbitrary: st) (simp_all add: reportedResults_post_callback)

lemma reportedBatches_receive_all:
  "reportedBatches (receive_all st evs) eid =
     reportedBatches st eid + length (filter (\<lambda>ev. isBatchFor eid (snd ev)) evs)"
  by (induction evs arbitrary: st) (simp_all add: reportedBatches_post_callback)

lemma receive_all_append:
  "receive_all st (evs @ evs') = receive_all (receive_all st evs) evs'"
  by (induction evs arbitrary: st) simp_all

lemma status_counts:
  "e \<in> set (executionList st) \<Longrightarrow>
     \<exists>rs. all_results e = Some rs \<and> total_results_count e = Some (length rs)"
  by (auto simp: executionList_def statusEntry_def)

text \<open>The keys of the map stay distinct, as those of a JavaScript \<open>Map\<close> are.\<close>

lemma distinct_register: "distinct (map fst st) \<Longrightarrow> distinct (map fst (register now k st))"
  by (auto simp: register_def map_of_eq_None_iff)

lemma distinct_post_callback:
  "distinct (map fst st) \<Longrightarrow> distinct (map fst (fst (post_callback now b st)))"
  by (simp add: post_callback_def Let_def distinct_register distinct_map_entry)

lemma distinct_receive_all:
  "distinct (map fst st) \<Longrightarrow> distinct (map fst (receive_all st evs))"
  by (induction evs arbitrary: st) (simp_all add: distinct_post_callback)

text \<open>
  \<^bold>\<open>C9\<close>. The accumulation of the relay is append-only and monotone per execution id.
  One callback extends the \<open>all_results\<close> reported for an id by the event's
  \<open>batch_results\<close> when it is a \<open>batch_completed\<close> event for that id, and leaves it as it is
  otherwise; after any sequence of callbacks the reported list is the earlier list
  followed by the batches for that id in arrival order, so the list reported after a
  sequence is a prefix of the list reported after any longer one; \<open>batches_received\<close> is
  the number of \<open>batch_completed\<close> events received for the id and never decreases; and
  every entry of every status response has \<open>total_results_count\<close> equal to the length of
  its \<open>all_results\<close>.
\<close>

theorem relay_accumulation:
  "reportedResults (fst (post_callback now b st)) eid =
      reportedResults st eid @ (if isBatchFor eid b then batchItems b else [])
   \<and> reportedResults (receive_all st evs) eid =
      reportedResults st eid @
        concat (map (\<lambda>ev. batchItems (snd ev)) (filter (\<lambda>ev. isBatchFor eid (snd ev)) evs))
   \<and> prefix (reportedResults (receive_all st evs) eid)
        (reportedResults (receive_all st (evs @ evs')) eid)
   \<and> reportedBatches (receive_all [] evs) eid
        = length (filter (\<lambda>ev. isBatchFor eid (snd ev)) evs)
   \<and> reportedBatches (receive_all st evs) eid
        \<le> reportedBatches (receive_all st (evs @ evs')) eid
   \<and> (\<forall>e \<in> set (executions (snd (get_status t st))).
        \<exists>rs. all_results e = Some rs \<and> total_results_count e = Some (length rs))"
proof (intro conjI)
  show "reportedResults (fst (post_callback now b st)) eid =
      reportedResults st eid @ (if isBatchFor eid b then batchItems b else [])"
    by (rule reportedResults_post_callback)
  show "reportedResults (receive_all st evs) eid =
      reportedResults st eid @
        concat (map (\<lambda>ev. batchItems (snd ev)) (filter (\<lambda>ev. isBatchFor eid (snd ev)) evs))"
    by (rule reportedResults_receive_all)
  show "prefix (reportedResults (receive_all st evs) eid)
        (reportedResults (receive_all st (evs @ evs')) eid)"
    by (simp add: receive_all_append reportedResults_receive_all [of "receive_all st evs"])
  show "reportedBatches (receive_all [] evs) eid
        = length (filter (\<lambda>ev. isBatchFor eid (snd ev)) evs)"
  proof -
    have "reportedBatches ([] :: 'a relay) eid = 0"
      by (simp add: reportedBatches_map_of)
    with reportedBatches_receive_all [of "[]" evs eid] show ?thesis by simp
  qed
  show "reportedBatches (receive_all st evs) eid
        \<le> reportedBatches (receive_all st (evs @ evs')) eid"
    by (simp add: receive_all_append reportedBatches_receive_all [of "receive_all st evs"])
  show "\<forall>e \<in> set (executions (snd (get_status t st))).
        \<exists>rs. all_results e = Some rs \<and> total_results_count e = Some (length rs)"
    by (simp add: get_status_def status_counts)
qed

theorem relay_accumulation_witness:
  "get_status ''t9''
     (receive_all []
        [(''t1'', \<lparr>cb_execution_id = Some ''A'', cb_status = Some ''batch_completed'',
                  cb_batch_number = Some 1, cb_total_batches = Some 2,
                  cb_progress_percent = Some 50, cb_workflow_id = None,
                  cb_timestamp = None, cb_summary = None,
                  cb_batch_results = ResultList [1::nat, 2], cb_total_items = None\<rparr>),
         (''t2'', \<lparr>cb_execution_id = Some ''A'', cb_status = Some ''batch_completed'',
                  cb_batch_number = Some 2, cb_total_batches = Some 2,
                  cb_progress_percent = Some 100, cb_workflow_id = None,
                  cb_timestamp = None, cb_summary = None,
                  cb_batch_results = ResultList [3], cb_total_items = None\<rparr>)])
   = (200,
      \<lparr>total_executions = 1,
       executions =
         [\<lparr>execution_id = ''A'', start_time = ''t1'', completed_time = None,
           batches_received = 2, final_summary = None, all_results = Some [1, 2, 3],
           total_results_count = Some 3\<rparr>],
       timestamp = ''t9''\<rparr>)"
proof -
  let ?b1 = "\<lparr>cb_execution_id = Some ''A'', cb_status = Some ''batch_completed'',
                  cb_batch_number = Some 1, cb_total_batches = Some 2,
                  cb_progress_percent = Some 50, cb_workflow_id = None,
                  cb_timestamp = None, cb_summary = None,
                  cb_batch_results = ResultList [1::nat, 2], cb_total_items = None\<rparr>"
  let ?b2 = "\<lparr>cb_execution_id = Some ''A'', cb_status = Some ''batch_completed'',
                  cb_batch_number = Some 2, cb_total_batches = Some 2,
                  cb_progress_percent = Some 100, cb_workflow_id = None,
                  cb_timestamp = None, cb_summary = None,
                  cb_batch_results = ResultList [3::nat], cb_total_items = None\<rparr>"
  let ?st = "receive_all [] [(''t1'', ?b1), (''t2'', ?b2)]"
  have st: "?st = [(''A'', \<lparr>ex_startTime = ''t1'',
       batches = [\<lparr>batchNumber = Some 1, totalBatches = Some 2, batch_progress = 50,
                    batch_summary = None, batch_results = ResultList [1, 2],
                    batch_timestamp = None\<rparr>,
                  \<lparr>batchNumber = Some 2, totalBatches = Some 2, batch_progress = 100,
                    batch_summary = None, batch_results = ResultList [3],
                    batch_timestamp = None\<rparr>],
       totalItems = 0, ex_allResults = Some [1, 2, 3], ex_completedTime = None,
       ex_finalSummary = None\<rparr>)]"
    by (simp add: post_callback_def Let_def callbackId_def callbackStatus_def orDefault_def
        register_def newExecution_def storeBatch_def)
  from relay_accumulation [where st = ?st and t = "''t9''"]
  have "\<forall>e \<in> set (executions (snd (get_status ''t9'' ?st))).
        \<exists>rs. all_results e = Some rs \<and> total_results_count e = Some (length rs)"
    by blast
  then show ?thesis
    unfolding st by (simp add: get_status_def executionList_def statusEntry_def)
qed




end
